theory Spec2Isabelle
  imports Main
begin

section \<open>Data model\<close>

text \<open>
  A lock document as the source writes it into the collection: the fields
  \<^verbatim>\<open>locked\<close>, \<^verbatim>\<open>owner\<close>, \<^verbatim>\<open>created\<close>, \<^verbatim>\<open>expire\<close>; the key is the document's
  \<^verbatim>\<open>_id\<close>.  A \<^verbatim>\<open>datetime\<close> is an integer number of microseconds, a
  \<^verbatim>\<open>timedelta\<close> likewise; Python's \<^verbatim>\<open>None\<close> is \<open>None\<close>.  The owner is a string
  or \<^verbatim>\<open>None\<close>.
\<close>

type_synonym key = string
type_synonym time = int

record lock_doc =
  locked :: bool
  owner :: "string option"
  created :: "time option"
  expire :: "time option"

text \<open>The three query shapes and the two update shapes that the source sends.\<close>

datatype query =
    ById key
  | ByIdOwner key "string option"
  | FreeOrExpired key time

datatype update_spec =
    Replace lock_doc
  | SetExpire time

datatype store_op =
    Insert key lock_doc
  | Update query update_spec
  | FindAndModify query update_spec
  | FindOne query

datatype error =
    MongoLockException
  | MongoLockLocked "string option" "time option" "time option"
  | TypeError
  | Raised string

text \<open>
  The collection is an external collaborator: the operations the source calls on
  it are taken as a parameter.  \<open>insert_op\<close> answers \<open>None\<close> for
  \<^verbatim>\<open>DuplicateKeyError\<close>; \<open>update_op\<close> answers the count \<^verbatim>\<open>result['n']\<close>;
  \<open>find_and_modify_op\<close> answers the document as it was before the change.
\<close>

record 'c backend =
  insert_op :: "'c \<Rightarrow> key \<Rightarrow> lock_doc \<Rightarrow> 'c option"
  update_op :: "'c \<Rightarrow> query \<Rightarrow> update_spec \<Rightarrow> nat \<times> 'c"
  find_and_modify_op :: "'c \<Rightarrow> query \<Rightarrow> update_spec \<Rightarrow> lock_doc option \<times> 'c"
  find_one_op :: "'c \<Rightarrow> query \<Rightarrow> lock_doc option"

text \<open>
  The state a call runs in: the collection, the number of clock readings taken
  so far, and the store operations issued so far, oldest first.
\<close>

record 'c world =
  coll :: 'c
  ticks :: nat
  oplog :: "store_op list"

section \<open>Clock and collection calls\<close>

text \<open>\<^verbatim>\<open>datetime.utcnow()\<close>: the \<open>n\<close>-th reading of the clock is \<open>clk n\<close>.\<close>

definition utcnow :: "(nat \<Rightarrow> time) \<Rightarrow> 'c world \<Rightarrow> time \<times> 'c world" where
  "utcnow clk w = (clk (ticks w), w\<lparr>ticks := Suc (ticks w)\<rparr>)"

definition collection_insert :: "'c backend \<Rightarrow> 'c world \<Rightarrow> key \<Rightarrow> lock_doc \<Rightarrow> bool \<times> 'c world" where
  "collection_insert B w k d =
     (case insert_op B (coll w) k d of
        None \<Rightarrow> (False, w\<lparr>oplog := oplog w @ [Insert k d]\<rparr>)
      | Some c \<Rightarrow> (True, w\<lparr>coll := c, oplog := oplog w @ [Insert k d]\<rparr>))"

definition collection_update :: "'c backend \<Rightarrow> 'c world \<Rightarrow> query \<Rightarrow> update_spec \<Rightarrow> nat \<times> 'c world" where
  "collection_update B w q u =
     (case update_op B (coll w) q u of
        (n, c) \<Rightarrow> (n, w\<lparr>coll := c, oplog := oplog w @ [Update q u]\<rparr>))"

definition collection_find_and_modify ::
  "'c backend \<Rightarrow> 'c world \<Rightarrow> query \<Rightarrow> update_spec \<Rightarrow> lock_doc option \<times> 'c world" where
  "collection_find_and_modify B w q u =
     (case find_and_modify_op B (coll w) q u of
        (r, c) \<Rightarrow> (r, w\<lparr>coll := c, oplog := oplog w @ [FindAndModify q u]\<rparr>))"

definition collection_find_one :: "'c backend \<Rightarrow> 'c world \<Rightarrow> query \<Rightarrow> lock_doc option \<times> 'c world" where
  "collection_find_one B w q = (find_one_op B (coll w) q, w\<lparr>oplog := oplog w @ [FindOne q]\<rparr>)"

section \<open>The lock coordinator\<close>

text \<open>
  \<^verbatim>\<open>_try_get_lock\<close>.  The result is \<^verbatim>\<open>True\<close> or \<^verbatim>\<open>False\<close>, or the exception;
  it is typed \<open>bool option\<close> because the caller tests it with \<^verbatim>\<open>is not None\<close>.
\<close>

definition try_get_lock ::
  "'c backend \<Rightarrow> (nat \<Rightarrow> time) \<Rightarrow> 'c world \<Rightarrow> key \<Rightarrow> string option \<Rightarrow> time option
     \<Rightarrow> 'c world \<times> (error + bool option)" where
  "try_get_lock B clk w k own expire_at =
     (case utcnow clk w of
        (dtnow, w1) \<Rightarrow>
          (case collection_update B w1 (FreeOrExpired k dtnow)
                  (Replace \<lparr>locked = True, owner = own, created = Some dtnow, expire = expire_at\<rparr>) of
             (n, w2) \<Rightarrow>
               if n > 1 then (w2, Inl MongoLockException)
               else (w2, Inr (Some (n = 1)))))"

text \<open>The \<^verbatim>\<open>while True\<close> loop of \<^verbatim>\<open>lock\<close>.\<close>

function lock_loop ::
  "'c backend \<Rightarrow> (nat \<Rightarrow> time) \<Rightarrow> 'c world \<Rightarrow> key \<Rightarrow> string option \<Rightarrow> time option
     \<Rightarrow> time \<Rightarrow> int \<Rightarrow> 'c world \<times> (error + bool)" where
  "lock_loop B clk w k own expire_at start_time timeout =
     (case try_get_lock B clk w k own expire_at of
        (w1, Inl e) \<Rightarrow> (w1, Inl e)
      | (w1, Inr r) \<Rightarrow>
          if r \<noteq> None then (w1, Inr True)
          else (case utcnow clk w1 of
                  (now, w2) \<Rightarrow>
                    if now \<ge> start_time + timeout then (w2, Inr False)
                    else lock_loop B clk w2 k own expire_at start_time timeout))"
  by pat_completeness auto
termination
  by (relation "{}") (auto simp: try_get_lock_def split: prod.splits if_splits)

declare lock_loop.simps [simp del]

text \<open>
  \<^verbatim>\<open>lock\<close>.  \<open>timeout\<close> and \<open>expire_after\<close> are the arguments \<^verbatim>\<open>timeout\<close> and
  \<^verbatim>\<open>expire\<close> as \<^verbatim>\<open>timedelta(seconds=...)\<close> makes them, in microseconds; \<^verbatim>\<open>None\<close>
  and \<^verbatim>\<open>0\<close> are the two values Python takes as false.  The document literal is
  built, with its clock reading, before \<^verbatim>\<open>insert\<close> is called.
\<close>

definition lock ::
  "'c backend \<Rightarrow> (nat \<Rightarrow> time) \<Rightarrow> 'c world \<Rightarrow> key \<Rightarrow> string option \<Rightarrow> int option \<Rightarrow> int option
     \<Rightarrow> 'c world \<times> (error + bool)" where
  "lock B clk w k own timeout expire_after =
     (case (case expire_after of
              None \<Rightarrow> (None, w)
            | Some s \<Rightarrow>
                if s = 0 then (None, w)
                else (case utcnow clk w of (now, w') \<Rightarrow> (Some (now + s), w'))) of
        (expire_at, w1) \<Rightarrow>
          (case utcnow clk w1 of
             (created_at, w2) \<Rightarrow>
               (case collection_insert B w2 k
                       \<lparr>locked = True, owner = own, created = Some created_at, expire = expire_at\<rparr> of
                  (True, w3) \<Rightarrow> (w3, Inr True)
                | (False, w3) \<Rightarrow>
                    (case timeout of
                       None \<Rightarrow> (w3, Inr False)
                     | Some t \<Rightarrow>
                         if t = 0 then (w3, Inr False)
                         else (case utcnow clk w3 of
                                 (start_time, w4) \<Rightarrow>
                                   lock_loop B clk w4 k own expire_at start_time t)))))"

text \<open>\<^verbatim>\<open>release\<close>: the exception leaves the collection as \<^verbatim>\<open>find_and_modify\<close> left it.\<close>

definition release ::
  "'c backend \<Rightarrow> 'c world \<Rightarrow> key \<Rightarrow> string option \<Rightarrow> 'c world \<times> (error + unit)" where
  "release B w k own =
     (case collection_find_and_modify B w (ByIdOwner k own)
             (Replace \<lparr>locked = False, owner = None, created = None, expire = None\<rparr>) of
        (None, w1) \<Rightarrow> (w1, Inl MongoLockException)
      | (Some status, w1) \<Rightarrow>
          if \<not> locked status then (w1, Inl MongoLockException) else (w1, Inr ()))"

definition get_lock_info :: "'c backend \<Rightarrow> 'c world \<Rightarrow> key \<Rightarrow> lock_doc option \<times> 'c world" where
  "get_lock_info B w k = collection_find_one B w (ById k)"

text \<open>
  \<^verbatim>\<open>touch\<close>.  A stored \<^verbatim>\<open>datetime\<close> is always true in Python, so
  \<^verbatim>\<open>not lock['expire']\<close> holds for \<^verbatim>\<open>None\<close> only; subtracting \<^verbatim>\<open>None\<close> from a
  \<^verbatim>\<open>datetime\<close> raises \<^verbatim>\<open>TypeError\<close>, after the clock has been read.
\<close>

definition touch ::
  "'c backend \<Rightarrow> (nat \<Rightarrow> time) \<Rightarrow> 'c world \<Rightarrow> key \<Rightarrow> string option \<Rightarrow> 'c world \<times> (error + unit)" where
  "touch B clk w k own =
     (case collection_find_one B w (ByIdOwner k own) of
        (None, w1) \<Rightarrow> (w1, Inl MongoLockException)
      | (Some lk, w1) \<Rightarrow>
          (case expire lk of
             None \<Rightarrow> (w1, Inr ())
           | Some e \<Rightarrow>
               (case utcnow clk w1 of
                  (now, w2) \<Rightarrow>
                    (case created lk of
                       None \<Rightarrow> (w2, Inl TypeError)
                     | Some c \<Rightarrow>
                         (case collection_update B w2 (ByIdOwner k own) (SetExpire (now + (e - c))) of
                            (n, w3) \<Rightarrow> (w3, Inr ()))))))"

text \<open>
  \<^verbatim>\<open>__call__\<close>, the generator under \<^verbatim>\<open>contextlib.contextmanager\<close>, run together
  with the body of the \<^verbatim>\<open>with\<close> statement.  An exception of the body is thrown
  into the generator at its \<^verbatim>\<open>yield\<close>; the source has no handler and no
  \<^verbatim>\<open>finally\<close> there, so it leaves the generator at once.  Subscripting the
  \<^verbatim>\<open>None\<close> that \<^verbatim>\<open>find_one\<close> may answer raises \<^verbatim>\<open>TypeError\<close>.
\<close>

definition call ::
  "'c backend \<Rightarrow> (nat \<Rightarrow> time) \<Rightarrow> 'c world \<Rightarrow> key \<Rightarrow> string option \<Rightarrow> int option \<Rightarrow> int option
     \<Rightarrow> ('c world \<Rightarrow> 'c world \<times> (error + unit)) \<Rightarrow> 'c world \<times> (error + unit)" where
  "call B clk w k own timeout expire_after body =
     (case lock B clk w k own timeout expire_after of
        (w1, Inl e) \<Rightarrow> (w1, Inl e)
      | (w1, Inr False) \<Rightarrow>
          (case get_lock_info B w1 k of
             (None, w2) \<Rightarrow> (w2, Inl TypeError)
           | (Some status, w2) \<Rightarrow>
               (w2, Inl (MongoLockLocked (owner status) (created status) (expire status))))
      | (w1, Inr True) \<Rightarrow>
          (case body w1 of
             (w2, Inl e) \<Rightarrow> (w2, Inl e)
           | (w2, Inr u) \<Rightarrow> release B w2 k own))"

section \<open>The collection of a MongoDB server\<close>

text \<open>
  The store the source talks to, by the contract of its operations: \<^verbatim>\<open>_id\<close> is
  unique, so the collection is a map from keys to documents.  \<^verbatim>\<open>insert\<close> refuses
  an existing \<^verbatim>\<open>_id\<close>; \<^verbatim>\<open>update\<close> (not \<^verbatim>\<open>multi\<close>) and \<^verbatim>\<open>find_and_modify\<close>
  change the one document that matches, atomically; a replacement document
  keeps the \<^verbatim>\<open>_id\<close>; \<^verbatim>\<open>$lt\<close> never matches \<^verbatim>\<open>null\<close>.
\<close>

fun query_key :: "query \<Rightarrow> key" where
  "query_key (ById k) = k"
| "query_key (ByIdOwner k own) = k"
| "query_key (FreeOrExpired k t) = k"

fun matches :: "query \<Rightarrow> lock_doc \<Rightarrow> bool" where
  "matches (ById k) d = True"
| "matches (ByIdOwner k own) d = (owner d = own)"
| "matches (FreeOrExpired k t) d =
     (locked d = False \<or> (case expire d of None \<Rightarrow> False | Some e \<Rightarrow> e < t))"

fun apply_update :: "update_spec \<Rightarrow> lock_doc \<Rightarrow> lock_doc" where
  "apply_update (Replace d') d = d'"
| "apply_update (SetExpire t) d = d\<lparr>expire := Some t\<rparr>"

definition mongo_find_one :: "(key \<rightharpoonup> lock_doc) \<Rightarrow> query \<Rightarrow> lock_doc option" where
  "mongo_find_one c q =
     (case c (query_key q) of
        None \<Rightarrow> None
      | Some d \<Rightarrow> if matches q d then Some d else None)"

definition mongo_insert :: "(key \<rightharpoonup> lock_doc) \<Rightarrow> key \<Rightarrow> lock_doc \<Rightarrow> (key \<rightharpoonup> lock_doc) option" where
  "mongo_insert c k d = (case c k of None \<Rightarrow> Some (c(k \<mapsto> d)) | Some d' \<Rightarrow> None)"

definition mongo_update ::
  "(key \<rightharpoonup> lock_doc) \<Rightarrow> query \<Rightarrow> update_spec \<Rightarrow> nat \<times> (key \<rightharpoonup> lock_doc)" where
  "mongo_update c q u =
     (case mongo_find_one c q of
        None \<Rightarrow> (0, c)
      | Some d \<Rightarrow> (1, c(query_key q \<mapsto> apply_update u d)))"

definition mongo_find_and_modify ::
  "(key \<rightharpoonup> lock_doc) \<Rightarrow> query \<Rightarrow> update_spec \<Rightarrow> lock_doc option \<times> (key \<rightharpoonup> lock_doc)" where
  "mongo_find_and_modify c q u =
     (case mongo_find_one c q of
        None \<Rightarrow> (None, c)
      | Some d \<Rightarrow> (Some d, c(query_key q \<mapsto> apply_update u d)))"

definition mongo :: "(key \<rightharpoonup> lock_doc) backend" where
  "mongo = \<lparr>insert_op = mongo_insert, update_op = mongo_update,
            find_and_modify_op = mongo_find_and_modify, find_one_op = mongo_find_one\<rparr>"

section \<open>Test fixtures\<close>

text \<open>A clock that advances one millisecond between two readings.\<close>

definition steady_clock :: "nat \<Rightarrow> time" where
  "steady_clock n = 1000 * int n"

text \<open>A clock whose first two readings coincide and that then advances three seconds a reading.\<close>

definition lease_clock :: "nat \<Rightarrow> time" where
  "lease_clock n = (if n \<le> 1 then 0 else 3000000 * (int n - 1))"

definition empty_world :: "(key \<rightharpoonup> lock_doc) world" where
  "empty_world = \<lparr>coll = Map.empty, ticks = 0, oplog = []\<rparr>"

text \<open>Owner \<^verbatim>\<open>x\<close> holds key \<^verbatim>\<open>a\<close> with no expiry.\<close>

definition held_world :: "(key \<rightharpoonup> lock_doc) world" where
  "held_world =
     \<lparr>coll = [''a'' \<mapsto> \<lparr>locked = True, owner = Some ''x'', created = Some 0, expire = None\<rparr>],
      ticks = 0, oplog = []\<rparr>"

text \<open>Key \<^verbatim>\<open>a\<close> was held with an expiry and has been released.\<close>

definition free_world :: "(key \<rightharpoonup> lock_doc) world" where
  "free_world =
     \<lparr>coll = [''a'' \<mapsto> \<lparr>locked = False, owner = None, created = None, expire = None\<rparr>],
      ticks = 0, oplog = []\<rparr>"

text \<open>The body of a \<^verbatim>\<open>with\<close> statement that raises.\<close>

definition raising_body :: "'c world \<Rightarrow> 'c world \<times> (error + unit)" where
  "raising_body w = (w, Inl (Raised ''boom''))"

text \<open>The body of a \<^verbatim>\<open>with\<close> statement that does nothing and ends normally.\<close>

definition passing_body :: "'c world \<Rightarrow> 'c world \<times> (error + unit)" where
  "passing_body w = (w, Inr ())"

text \<open>
  A store whose identity invariant is broken: it holds nothing it can show,
  refuses every insert and reports two documents affected by every update.
\<close>

definition broken_store :: "unit backend" where
  "broken_store =
     \<lparr>insert_op = (\<lambda>c k d. None), update_op = (\<lambda>c q u. (2, c)),
      find_and_modify_op = (\<lambda>c q u. (None, c)), find_one_op = (\<lambda>c q. None)\<rparr>"

definition broken_world :: "unit world" where
  "broken_world = \<lparr>coll = (), ticks = 0, oplog = []\<rparr>"

text \<open>Acquire a ten-second lease on an unseen key, then renew it twice, three seconds apart.\<close>

definition leased_world :: "(key \<rightharpoonup> lock_doc) world" where
  "leased_world = fst (lock mongo lease_clock empty_world ''a'' (Some ''x'') None (Some 10000000))"

definition renewed_once :: "(key \<rightharpoonup> lock_doc) world" where
  "renewed_once = fst (touch mongo lease_clock leased_world ''a'' (Some ''x''))"

definition renewed_twice :: "(key \<rightharpoonup> lock_doc) world" where
  "renewed_twice = fst (touch mongo lease_clock renewed_once ''a'' (Some ''x''))"

section \<open>Properties of the acquisition loop\<close>

lemma try_get_lock_not_None: "snd (try_get_lock B clk w k own e) \<noteq> Inr None"
  by (simp add: try_get_lock_def utcnow_def split: prod.splits)

text \<open>
  No answer of \<^verbatim>\<open>_try_get_lock\<close> is \<^verbatim>\<open>None\<close>, so the loop leaves in its first
  round: with the exception of the attempt, or else with \<^verbatim>\<open>True\<close>.
\<close>

lemma lock_loop_once:
  "lock_loop B clk w k own e st t =
     (case try_get_lock B clk w k own e of
        (w1, Inl x) \<Rightarrow> (w1, Inl x)
      | (w1, Inr r) \<Rightarrow> (w1, Inr True))"
  using try_get_lock_not_None [of B clk w k own e]
  by (subst lock_loop.simps) (auto split: prod.splits sum.splits)

lemmas store_calls =
  utcnow_def collection_insert_def collection_update_def collection_find_and_modify_def
  collection_find_one_def

lemmas fixtures =
  steady_clock_def lease_clock_def empty_world_def held_world_def free_world_def raising_body_def
  passing_body_def

lemmas mongo_calls =
  mongo_def mongo_insert_def mongo_update_def mongo_find_one_def mongo_find_and_modify_def

section \<open>Acquisition without a timeout\<close>

text \<open>
  Claim C7.  When the store refuses the insert because a record for the key
  exists and no timeout was given (\<^verbatim>\<open>None\<close> or \<^verbatim>\<open>0\<close>), \<^verbatim>\<open>lock\<close> answers
  \<^verbatim>\<open>False\<close> at once: the collection is as it was, and the refused insert is the
  only store operation of the call, so no conditional update was attempted.
\<close>

theorem lock_without_timeout_fails_at_once:
  assumes dup: "\<And>d. insert_op B (coll w) k d = None"
    and no_timeout: "timeout = None \<or> timeout = Some 0"
  shows "snd (lock B clk w k own timeout expire_after) = Inr False \<and>
         coll (fst (lock B clk w k own timeout expire_after)) = coll w \<and>
         (\<exists>d. oplog (fst (lock B clk w k own timeout expire_after)) = oplog w @ [Insert k d])"
  using no_timeout
  by (auto simp: lock_def store_calls dup split: option.splits prod.splits)

text \<open>The same at a concrete call: \<^verbatim>\<open>y\<close> asks for key \<^verbatim>\<open>a\<close>, which \<^verbatim>\<open>x\<close> holds.\<close>

theorem lock_without_timeout_fails_at_once_witness:
  "(\<forall>d. insert_op mongo (coll held_world) ''a'' d = None) \<and>
   snd (lock mongo steady_clock held_world ''a'' (Some ''y'') None (Some 5000000)) = Inr False \<and>
   coll (fst (lock mongo steady_clock held_world ''a'' (Some ''y'') None (Some 5000000))) = coll held_world \<and>
   (\<exists>d. oplog (fst (lock mongo steady_clock held_world ''a'' (Some ''y'') None (Some 5000000)))
          = oplog held_world @ [Insert ''a'' d])"
proof -
  have dup: "\<And>d. insert_op mongo (coll held_world) ''a'' d = None"
    by (simp add: mongo_calls held_world_def)
  show ?thesis
    using dup lock_without_timeout_fails_at_once [of mongo held_world "''a''" None steady_clock "Some ''y''" "Some 5000000", OF dup]
    by simp
qed

section \<open>More than one record affected\<close>

text \<open>
  Claim C8.  In any round of the contended loop, when the store reports more
  than one record affected by the conditional update, \<^verbatim>\<open>_try_get_lock\<close> raises
  \<^verbatim>\<open>MongoLockException\<close> and the loop ends with that exception, in the state the
  attempt left: one clock reading and one update were made, and nothing is retried.
\<close>

theorem more_than_one_affected_is_fatal:
  assumes "1 < fst (update_op B (coll w) (FreeOrExpired k (clk (ticks w)))
                     (Replace \<lparr>locked = True, owner = own, created = Some (clk (ticks w)), expire = e\<rparr>))"
  shows "snd (try_get_lock B clk w k own e) = Inl MongoLockException \<and>
         snd (lock_loop B clk w k own e st t) = Inl MongoLockException \<and>
         fst (lock_loop B clk w k own e st t) = fst (try_get_lock B clk w k own e) \<and>
         ticks (fst (lock_loop B clk w k own e st t)) = Suc (ticks w) \<and>
         oplog (fst (lock_loop B clk w k own e st t)) =
           oplog w @ [Update (FreeOrExpired k (clk (ticks w)))
                        (Replace \<lparr>locked = True, owner = own, created = Some (clk (ticks w)), expire = e\<rparr>)]"
  using assms
  by (auto simp: lock_loop_once try_get_lock_def store_calls split: prod.splits)

text \<open>The same against a store that reports two records affected.\<close>

theorem more_than_one_affected_is_fatal_witness:
  "1 < fst (update_op broken_store (coll broken_world)
              (FreeOrExpired ''a'' (steady_clock (ticks broken_world)))
              (Replace \<lparr>locked = True, owner = Some ''y'',
                        created = Some (steady_clock (ticks broken_world)), expire = None\<rparr>)) \<and>
   snd (lock_loop broken_store steady_clock broken_world ''a'' (Some ''y'') None 0 300000)
     = Inl MongoLockException \<and>
   ticks (fst (lock_loop broken_store steady_clock broken_world ''a'' (Some ''y'') None 0 300000)) = 1 \<and>
   length (oplog (fst (lock_loop broken_store steady_clock broken_world ''a'' (Some ''y'') None 0 300000))) = 1"
proof -
  have h: "1 < fst (update_op broken_store (coll broken_world)
              (FreeOrExpired ''a'' (steady_clock (ticks broken_world)))
              (Replace \<lparr>locked = True, owner = Some ''y'',
                        created = Some (steady_clock (ticks broken_world)), expire = None\<rparr>))"
    by (simp add: broken_store_def)
  have w0: "ticks broken_world = 0" "oplog broken_world = []"
    by (simp_all add: broken_world_def)
  from more_than_one_affected_is_fatal
         [where B = broken_store and w = broken_world and k = "''a''" and clk = steady_clock
            and own = "Some ''y''" and e = None and st = 0 and t = 300000, OF h] h w0
  show ?thesis by auto
qed

section \<open>Release\<close>

text \<open>
  Claim C5.  Against the MongoDB collection, \<^verbatim>\<open>release(key, owner)\<close> on a record
  that matches key and owner and is held resets it to the free state
  (\<^verbatim>\<open>locked\<close> false, the other three fields null) and returns normally; when no
  record matches key and owner, or the record of the key is already free, it
  raises \<^verbatim>\<open>MongoLockException\<close>.
\<close>

theorem release_resets_held_record_or_fails:
  "(coll w k = Some d \<and> owner d = own \<and> locked d \<longrightarrow>
      snd (release mongo w k own) = Inr () \<and>
      coll (fst (release mongo w k own)) =
        (coll w)(k \<mapsto> \<lparr>locked = False, owner = None, created = None, expire = None\<rparr>)) \<and>
   (coll w k = None \<or> (\<exists>d'. coll w k = Some d' \<and> (owner d' \<noteq> own \<or> locked d' = False)) \<longrightarrow>
      snd (release mongo w k own) = Inl MongoLockException)"
  by (auto simp: release_def store_calls mongo_calls split: option.splits prod.splits)

text \<open>
  The holder releases; another owner, an unseen key, and a release from the
  free state (by a named owner and by \<^verbatim>\<open>None\<close>) are refused.
\<close>

theorem release_resets_held_record_or_fails_witness:
  "snd (release mongo held_world ''a'' (Some ''x'')) = Inr () \<and>
   coll (fst (release mongo held_world ''a'' (Some ''x''))) ''a'' =
     Some \<lparr>locked = False, owner = None, created = None, expire = None\<rparr> \<and>
   snd (release mongo held_world ''a'' (Some ''z'')) = Inl MongoLockException \<and>
   snd (release mongo held_world ''b'' (Some ''x'')) = Inl MongoLockException \<and>
   snd (release mongo free_world ''a'' (Some ''x'')) = Inl MongoLockException \<and>
   snd (release mongo free_world ''a'' None) = Inl MongoLockException"
proof -
  let ?held = "\<lparr>locked = True, owner = Some ''x'', created = Some 0, expire = None\<rparr>"
  let ?free = "\<lparr>locked = False, owner = None, created = None, expire = None\<rparr>"
  have h: "coll held_world ''a'' = Some ?held" "coll held_world ''b'' = None"
    by (simp_all add: held_world_def)
  have f: "coll free_world ''a'' = Some ?free"
    by (simp add: free_world_def)
  from release_resets_held_record_or_fails [of held_world "''a''" ?held "Some ''x''"] h
  have 1: "snd (release mongo held_world ''a'' (Some ''x'')) = Inr ()"
    and 2: "coll (fst (release mongo held_world ''a'' (Some ''x''))) ''a'' = Some ?free"
    by simp_all
  from release_resets_held_record_or_fails [of held_world "''a''" ?held "Some ''z''"] h
  have 3: "snd (release mongo held_world ''a'' (Some ''z'')) = Inl MongoLockException"
    by simp
  from release_resets_held_record_or_fails [of held_world "''b''" ?held "Some ''x''"] h
  have 4: "snd (release mongo held_world ''b'' (Some ''x'')) = Inl MongoLockException"
    by simp
  from release_resets_held_record_or_fails [of free_world "''a''" ?free "Some ''x''"] f
  have 5: "snd (release mongo free_world ''a'' (Some ''x'')) = Inl MongoLockException"
    by simp
  from release_resets_held_record_or_fails [of free_world "''a''" ?free None] f
  have 6: "snd (release mongo free_world ''a'' None) = Inl MongoLockException"
    by simp
  from 1 2 3 4 5 6 show ?thesis by simp
qed

section \<open>Renewal\<close>

text \<open>The state after the ten-second lease of the fixtures has been acquired.\<close>

lemma leased_world_eq:
  "leased_world =
     \<lparr>coll = [''a'' \<mapsto> \<lparr>locked = True, owner = Some ''x'', created = Some 0, expire = Some 10000000\<rparr>],
      ticks = 2,
      oplog = [Insert ''a'' \<lparr>locked = True, owner = Some ''x'', created = Some 0, expire = Some 10000000\<rparr>]\<rparr>"
  by (simp add: leased_world_def lock_def store_calls mongo_calls fixtures)

text \<open>
  Claim C10.  Against the MongoDB collection, a \<^verbatim>\<open>touch(key, owner)\<close> that returns
  normally on a record with an expiry writes the \<^verbatim>\<open>expire\<close> field only, as the
  clock reading of the call plus \<^verbatim>\<open>expire - created\<close>: \<^verbatim>\<open>locked\<close>, \<^verbatim>\<open>owner\<close> and
  \<^verbatim>\<open>created\<close> of the record, and the records of all other keys, are as before.
\<close>

theorem touch_changes_expire_only:
  assumes rec: "coll w k = Some d"
    and exp: "expire d = Some e"
    and ok: "snd (touch mongo clk w k own) = Inr ()"
  shows "\<exists>c d'. created d = Some c \<and>
           coll (fst (touch mongo clk w k own)) k = Some d' \<and>
           locked d' = locked d \<and> owner d' = owner d \<and> created d' = created d \<and>
           expire d' = Some (clk (ticks w) + (e - c)) \<and>
           (\<forall>k'. k' \<noteq> k \<longrightarrow> coll (fst (touch mongo clk w k own)) k' = coll w k')"
  using assms
  by (auto simp: touch_def store_calls mongo_calls split: option.splits prod.splits if_splits)

text \<open>The first renewal of the ten-second lease, three seconds after it was acquired.\<close>

theorem touch_changes_expire_only_witness:
  "coll leased_world ''a'' =
     Some \<lparr>locked = True, owner = Some ''x'', created = Some 0, expire = Some 10000000\<rparr> \<and>
   snd (touch mongo lease_clock leased_world ''a'' (Some ''x'')) = Inr () \<and>
   (\<exists>d'. coll (fst (touch mongo lease_clock leased_world ''a'' (Some ''x''))) ''a'' = Some d' \<and>
      locked d' = True \<and> owner d' = Some ''x'' \<and> created d' = Some 0 \<and>
      expire d' = Some 13000000)"
proof -
  let ?d = "\<lparr>locked = True, owner = Some ''x'', created = Some 0, expire = Some 10000000\<rparr>"
  have rec: "coll leased_world ''a'' = Some ?d"
    by (simp add: leased_world_eq)
  have exp: "expire ?d = Some 10000000"
    by simp
  have ok: "snd (touch mongo lease_clock leased_world ''a'' (Some ''x'')) = Inr ()"
    by (simp add: leased_world_eq touch_def store_calls mongo_calls)
  have now: "lease_clock (ticks leased_world) = 3000000"
    by (simp add: leased_world_eq lease_clock_def)
  from touch_changes_expire_only [OF rec exp ok] rec ok now
  show ?thesis by auto
qed

text \<open>
  Claim C4.  The lease does not keep its length over renewals.  A ten-second
  lease acquired at time 0 and renewed at 3 s expires at 13 s, ten seconds
  after the renewal; renewed again at 6 s it expires at 19 s, thirteen seconds
  after the renewal and not ten: \<^verbatim>\<open>touch\<close> adds \<^verbatim>\<open>expire - created\<close>, and the
  first renewal has moved \<^verbatim>\<open>expire\<close> while \<^verbatim>\<open>created\<close> stayed.
\<close>

theorem second_renewal_lengthens_lease:
  "coll leased_world ''a'' =
     Some \<lparr>locked = True, owner = Some ''x'', created = Some 0, expire = Some 10000000\<rparr> \<and>
   lease_clock (ticks leased_world) = 3000000 \<and>
   coll renewed_once ''a'' =
     Some \<lparr>locked = True, owner = Some ''x'', created = Some 0, expire = Some 13000000\<rparr> \<and>
   lease_clock (ticks renewed_once) = 6000000 \<and>
   coll renewed_twice ''a'' =
     Some \<lparr>locked = True, owner = Some ''x'', created = Some 0, expire = Some 19000000\<rparr>"
  by (simp add: renewed_twice_def renewed_once_def leased_world_eq touch_def store_calls mongo_calls
      lease_clock_def)

section \<open>A zero expiry\<close>

text \<open>
  Claim C9.  Against the MongoDB collection, after \<^verbatim>\<open>lock\<close> with \<^verbatim>\<open>expire\<close> equal
  to 0 the record of the key is: on an unseen key, the inserted record, with
  \<^verbatim>\<open>expire\<close> null; on a free or expired record, when a timeout was given, the
  record written by the conditional update, with \<^verbatim>\<open>expire\<close> null; in every other
  case the record as it was.  No record is written with an expiry of now.
\<close>

theorem lock_zero_expire_writes_null:
  "coll (fst (lock mongo clk w k own timeout (Some 0))) k =
     (case coll w k of
        None \<Rightarrow> Some \<lparr>locked = True, owner = own, created = Some (clk (ticks w)), expire = None\<rparr>
      | Some d \<Rightarrow>
          if timeout \<noteq> None \<and> timeout \<noteq> Some 0 \<and> matches (FreeOrExpired k (clk (ticks w + 2))) d
          then Some \<lparr>locked = True, owner = own, created = Some (clk (ticks w + 2)), expire = None\<rparr>
          else Some d)"
  by (auto simp: lock_def lock_loop_once try_get_lock_def store_calls mongo_calls
      split: option.splits prod.splits if_splits bool.splits)

text \<open>The fast path on an unseen key, and the takeover of a free record.\<close>

theorem lock_zero_expire_writes_null_witness:
  "coll (fst (lock mongo steady_clock empty_world ''a'' (Some ''x'') None (Some 0))) ''a'' =
     Some \<lparr>locked = True, owner = Some ''x'', created = Some 0, expire = None\<rparr> \<and>
   coll (fst (lock mongo steady_clock free_world ''a'' (Some ''y'') (Some 300000) (Some 0))) ''a'' =
     Some \<lparr>locked = True, owner = Some ''y'', created = Some 2000, expire = None\<rparr>"
  using lock_zero_expire_writes_null [of steady_clock empty_world "''a''" "Some ''x''" None]
    lock_zero_expire_writes_null [of steady_clock free_world "''a''" "Some ''y''" "Some 300000"]
  by (simp add: empty_world_def free_world_def steady_clock_def)

section \<open>Contended acquisition\<close>

text \<open>
  Claim C1.  The timeout scenario: owner \<^verbatim>\<open>x\<close> holds key \<^verbatim>\<open>a\<close> with no expiry and
  owner \<^verbatim>\<open>y\<close> calls \<^verbatim>\<open>lock\<close> with a timeout of 0.3 s.  The call does not fail at
  the deadline: it returns \<^verbatim>\<open>True\<close>, while the record is still the one of \<^verbatim>\<open>x\<close>.
  The attempt answered \<^verbatim>\<open>False\<close>, and \<^verbatim>\<open>False is not None\<close> holds.
\<close>

theorem lock_reports_success_on_held_key:
  "snd (lock mongo steady_clock held_world ''a'' (Some ''y'') (Some 300000) None) = Inr True \<and>
   coll (fst (lock mongo steady_clock held_world ''a'' (Some ''y'') (Some 300000) None)) ''a'' =
     Some \<lparr>locked = True, owner = Some ''x'', created = Some 0, expire = None\<rparr>"
  by (simp add: lock_def lock_loop_once try_get_lock_def store_calls mongo_calls fixtures)

text \<open>
  Claim C2.  Two acquisitions of one key succeed with no release and no expiry
  between them: \<^verbatim>\<open>x\<close> acquires the unseen key \<^verbatim>\<open>a\<close>, then \<^verbatim>\<open>y\<close> calls \<^verbatim>\<open>lock\<close>
  with a timeout, and both calls return \<^verbatim>\<open>True\<close>.  The store saw two inserts
  and one update, the record is still the one of \<^verbatim>\<open>x\<close>.
\<close>

theorem two_owners_acquire_one_key:
  "snd (lock mongo steady_clock empty_world ''a'' (Some ''x'') None None) = Inr True \<and>
   snd (lock mongo steady_clock
          (fst (lock mongo steady_clock empty_world ''a'' (Some ''x'') None None))
          ''a'' (Some ''y'') (Some 300000) None) = Inr True \<and>
   coll (fst (lock mongo steady_clock
          (fst (lock mongo steady_clock empty_world ''a'' (Some ''x'') None None))
          ''a'' (Some ''y'') (Some 300000) None)) ''a'' =
     Some \<lparr>locked = True, owner = Some ''x'', created = Some 0, expire = None\<rparr> \<and>
   oplog (fst (lock mongo steady_clock
          (fst (lock mongo steady_clock empty_world ''a'' (Some ''x'') None None))
          ''a'' (Some ''y'') (Some 300000) None)) =
     [Insert ''a'' \<lparr>locked = True, owner = Some ''x'', created = Some 0, expire = None\<rparr>,
      Insert ''a'' \<lparr>locked = True, owner = Some ''y'', created = Some 1000, expire = None\<rparr>,
      Update (FreeOrExpired ''a'' 3000)
        (Replace \<lparr>locked = True, owner = Some ''y'', created = Some 3000, expire = None\<rparr>)]"
  by (simp add: lock_def lock_loop_once try_get_lock_def store_calls mongo_calls fixtures)

text \<open>
  Claim C6.  In any round of the contended loop in which the conditional update
  matches zero records, the loop does not go on to the deadline check, a pause
  and a further attempt: it returns \<^verbatim>\<open>True\<close> after that one update and one
  clock reading.
\<close>

theorem zero_matched_returns_success_at_once:
  assumes "fst (update_op B (coll w) (FreeOrExpired k (clk (ticks w)))
                 (Replace \<lparr>locked = True, owner = own, created = Some (clk (ticks w)), expire = e\<rparr>)) = 0"
  shows "snd (lock_loop B clk w k own e st t) = Inr True \<and>
         ticks (fst (lock_loop B clk w k own e st t)) = Suc (ticks w) \<and>
         oplog (fst (lock_loop B clk w k own e st t)) =
           oplog w @ [Update (FreeOrExpired k (clk (ticks w)))
                        (Replace \<lparr>locked = True, owner = own, created = Some (clk (ticks w)), expire = e\<rparr>)]"
  using assms
  by (auto simp: lock_loop_once try_get_lock_def store_calls split: prod.splits)

text \<open>
  The same in the timeout scenario, where the deadline of 0.3 s is still ahead
  at the next clock reading.
\<close>

theorem zero_matched_returns_success_at_once_witness:
  "fst (update_op mongo (coll held_world) (FreeOrExpired ''a'' (steady_clock (ticks held_world)))
          (Replace \<lparr>locked = True, owner = Some ''y'',
                    created = Some (steady_clock (ticks held_world)), expire = None\<rparr>)) = 0 \<and>
   snd (lock_loop mongo steady_clock held_world ''a'' (Some ''y'') None 0 300000) = Inr True \<and>
   ticks (fst (lock_loop mongo steady_clock held_world ''a'' (Some ''y'') None 0 300000)) = 1 \<and>
   length (oplog (fst (lock_loop mongo steady_clock held_world ''a'' (Some ''y'') None 0 300000))) = 1 \<and>
   steady_clock 1 < 0 + 300000"
proof -
  have h: "fst (update_op mongo (coll held_world) (FreeOrExpired ''a'' (steady_clock (ticks held_world)))
          (Replace \<lparr>locked = True, owner = Some ''y'',
                    created = Some (steady_clock (ticks held_world)), expire = None\<rparr>)) = 0"
    by (simp add: mongo_calls held_world_def)
  have w0: "ticks held_world = 0" "oplog held_world = []"
    by (simp_all add: held_world_def)
  from zero_matched_returns_success_at_once
         [where B = mongo and w = held_world and k = "''a''" and clk = steady_clock
            and own = "Some ''y''" and e = None and st = 0 and t = 300000, OF h] h w0
  show ?thesis by (auto simp: steady_clock_def)
qed

section \<open>Scoped acquisition\<close>

text \<open>
  Claim C3.  When the body of the \<^verbatim>\<open>with\<close> statement raises, \<^verbatim>\<open>release\<close> is not
  called: the exception of the body leaves the context manager, the only store
  operation is the insert of \<^verbatim>\<open>lock\<close>, and the record stays held by the caller.
  A body that ends normally is followed by the \<^verbatim>\<open>find_and_modify\<close> of
  \<^verbatim>\<open>release\<close>, which frees the record.
\<close>

theorem call_skips_release_when_body_raises:
  "snd (call mongo steady_clock empty_world ''a'' (Some ''x'') None None raising_body)
     = Inl (Raised ''boom'') \<and>
   coll (fst (call mongo steady_clock empty_world ''a'' (Some ''x'') None None raising_body)) ''a''
     = Some \<lparr>locked = True, owner = Some ''x'', created = Some 0, expire = None\<rparr> \<and>
   oplog (fst (call mongo steady_clock empty_world ''a'' (Some ''x'') None None raising_body))
     = [Insert ''a'' \<lparr>locked = True, owner = Some ''x'', created = Some 0, expire = None\<rparr>] \<and>
   snd (call mongo steady_clock empty_world ''a'' (Some ''x'') None None passing_body) = Inr () \<and>
   coll (fst (call mongo steady_clock empty_world ''a'' (Some ''x'') None None passing_body)) ''a''
     = Some \<lparr>locked = False, owner = None, created = None, expire = None\<rparr> \<and>
   oplog (fst (call mongo steady_clock empty_world ''a'' (Some ''x'') None None passing_body))
     = [Insert ''a'' \<lparr>locked = True, owner = Some ''x'', created = Some 0, expire = None\<rparr>,
        FindAndModify (ByIdOwner ''a'' (Some ''x''))
          (Replace \<lparr>locked = False, owner = None, created = None, expire = None\<rparr>)]"
  by (simp add: call_def lock_def release_def store_calls mongo_calls fixtures)

end
